theory Spec2Isabelle
  imports Main "HOL-Library.Sublist" "HOL-Library.Multiset"
begin

section \<open>Text primitives of the host language\<close>

text \<open>
  A report is modelled by the bytes of its UTF-8 encoding, one \<^typ>\<open>char\<close> per byte.
  Every keyword, delimiter and pattern of the program is ASCII, apart from the bullet
  marker U+2022, which is the three bytes E2 80 A2; searching and splitting a text for
  such a string gives the same result on the bytes as on the code points. Case folding
  and the whitespace test are those of the ASCII range: a byte beyond it is left as it
  is by \<open>lower\<close> and is no whitespace, so the model is exact on texts of ASCII
  characters and bullets, and leaves out the case folding and the spaces of other
  scripts.
\<close>

definition lower_char :: "char \<Rightarrow> char" where
  "lower_char c =
     (let n = (of_char c :: nat) in if 65 \<le> n \<and> n \<le> 90 then char_of (n + 32) else c)"

text \<open>\<^verbatim>\<open>str.lower()\<close>\<close>

definition lower :: "string \<Rightarrow> string" where
  "lower s = map lower_char s"

text \<open>\<^verbatim>\<open>str.isspace()\<close> of one character: tab, line feed, vertical tab, form feed,
  carriage return, the four separators 1C..1F, and the space.\<close>

definition is_space :: "char \<Rightarrow> bool" where
  "is_space c = (let n = (of_char c :: nat) in (9 \<le> n \<and> n \<le> 13) \<or> (28 \<le> n \<and> n \<le> 32))"

text \<open>\<^verbatim>\<open>str.strip()\<close>\<close>

definition strip :: "string \<Rightarrow> string" where
  "strip s = rev (dropWhile is_space (rev (dropWhile is_space s)))"

text \<open>\<^verbatim>\<open>sub in s\<close>\<close>

fun contains :: "string \<Rightarrow> string \<Rightarrow> bool" where
  "contains sub [] = (sub = [])"
| "contains sub (c # cs) = (prefix sub (c # cs) \<or> contains sub cs)"

text \<open>\<^verbatim>\<open>s.split(sep)\<close> for a non-empty separator: the occurrences of \<open>sep\<close> are found
  from the left and do not overlap; the pieces between them are returned, one more than
  there are occurrences.\<close>

fun py_split :: "string \<Rightarrow> string \<Rightarrow> string list" where
  "py_split sep [] = [[]]"
| "py_split sep (c # cs) =
     (if prefix sep (c # cs) then [] # py_split sep (drop (length sep - 1) cs)
      else (case py_split sep cs of
              [] \<Rightarrow> [[c]]
            | p # ps \<Rightarrow> (c # p) # ps))"

text \<open>\<^verbatim>\<open>any(term in text for term in terms)\<close>\<close>

definition any_in :: "string list \<Rightarrow> string \<Rightarrow> bool" where
  "any_in terms text = list_ex (\<lambda>term. contains term text) terms"

section \<open>Regular expressions\<close>

text \<open>
  The fragment of \<^verbatim>\<open>re\<close> syntax that the pattern tables use: literals, groups of
  alternatives, concatenation, an optional group, and \<open>*\<close> or \<open>+\<close> over a character
  class (\<open>.\<close>, \<open>\d\<close>, \<open>[\s-]\<close>). No pattern refers back to a group, so a group
  that holds a single literal is written as the literal. The search only asks whether
  a match exists, which for this fragment is whether some way of matching exists.
\<close>

datatype cls = Dot | Digit | Space_or_dash

datatype rx =
    Lit string
  | Alt "rx list"
  | Seq "rx list"
  | Opt rx
  | Star cls
  | Plus cls

fun cls_ok :: "cls \<Rightarrow> char \<Rightarrow> bool" where
  "cls_ok Dot c = (c \<noteq> CHR 0x0A)"
| "cls_ok Digit c = (let n = (of_char c :: nat) in 48 \<le> n \<and> n \<le> 57)"
| "cls_ok Space_or_dash c = (is_space c \<or> c = CHR ''-'')"

text \<open>A literal under \<^verbatim>\<open>re.IGNORECASE\<close>: does the text start with it, letter case apart?\<close>

fun ci_prefix :: "string \<Rightarrow> string \<Rightarrow> bool" where
  "ci_prefix [] s = True"
| "ci_prefix (p # ps) [] = False"
| "ci_prefix (p # ps) (c # cs) = (lower_char p = lower_char c \<and> ci_prefix ps cs)"

text \<open>The texts left over after zero or more characters of a class.\<close>

fun star_rests :: "cls \<Rightarrow> string \<Rightarrow> string list" where
  "star_rests k [] = [[]]"
| "star_rests k (c # cs) = (c # cs) # (if cls_ok k c then star_rests k cs else [])"

text \<open>\<open>rests r s\<close> lists every text left over once \<open>r\<close> has matched at the start of \<open>s\<close>;
  the list is empty when \<open>r\<close> does not match there.\<close>

fun rests :: "rx \<Rightarrow> string \<Rightarrow> string list"
  and rests_seq :: "rx list \<Rightarrow> string \<Rightarrow> string list"
  and rests_alt :: "rx list \<Rightarrow> string \<Rightarrow> string list" where
  "rests (Lit l) s = (if ci_prefix l s then [drop (length l) s] else [])"
| "rests (Alt rs) s = rests_alt rs s"
| "rests (Seq rs) s = rests_seq rs s"
| "rests (Opt r) s = s # rests r s"
| "rests (Star k) s = star_rests k s"
| "rests (Plus k) s = (case s of [] \<Rightarrow> [] | c # cs \<Rightarrow> if cls_ok k c then star_rests k cs else [])"
| "rests_seq [] s = [s]"
| "rests_seq (r # rs) s = concat (map (rests_seq rs) (rests r s))"
| "rests_alt [] s = []"
| "rests_alt (r # rs) s = rests r s @ rests_alt rs s"

text \<open>\<^verbatim>\<open>re.search(pattern, text, re.IGNORECASE)\<close> as a truth value: the pattern matches
  at some position of the text.\<close>

fun re_search :: "rx \<Rightarrow> string \<Rightarrow> bool" where
  "re_search r [] = (rests r [] \<noteq> [])"
| "re_search r (c # cs) = (rests r (c # cs) \<noteq> [] \<or> re_search r cs)"

section \<open>Enumerations and the agent\<close>

datatype TriageSeverity = EMERGENCY | URGENT | SEMI_URGENT | ROUTINE | SELF_CARE

datatype CarePathway = EMERGENCY_ROOM | URGENT_CARE | PRIMARY_CARE | TELEHEALTH | SELF_MANAGEMENT

text \<open>The \<^verbatim>\<open>.value\<close> of an enumeration member.\<close>

fun severity_value :: "TriageSeverity \<Rightarrow> string" where
  "severity_value EMERGENCY = ''emergency''"
| "severity_value URGENT = ''urgent''"
| "severity_value SEMI_URGENT = ''semi-urgent''"
| "severity_value ROUTINE = ''routine''"
| "severity_value SELF_CARE = ''self-care''"

fun pathway_value :: "CarePathway \<Rightarrow> string" where
  "pathway_value EMERGENCY_ROOM = ''emergency_room''"
| "pathway_value URGENT_CARE = ''urgent_care''"
| "pathway_value PRIMARY_CARE = ''primary_care''"
| "pathway_value TELEHEALTH = ''telehealth''"
| "pathway_value SELF_MANAGEMENT = ''self_management''"

datatype py_error = KeyError | IndexError

text \<open>\<^verbatim>\<open>d[k]\<close> on a dictionary literal, written as the list of its items: a missing key
  raises.\<close>

definition dict_get :: "('k \<times> 'v) list \<Rightarrow> 'k \<Rightarrow> py_error + 'v" where
  "dict_get d k = (case map_of d k of None \<Rightarrow> Inl KeyError | Some v \<Rightarrow> Inr v)"

record TriageAgent =
  emergency_indicators :: "rx list"
  urgent_indicators :: "rx list"
  semi_urgent_indicators :: "rx list"
  routine_indicators :: "rx list"
  self_care_indicators :: "rx list"

text \<open>The group \<^verbatim>\<open>(baby|infant|child)\<close> that opens every pediatric pattern.\<close>

definition child_ref :: rx where
  "child_ref = Alt [Lit ''baby'', Lit ''infant'', Lit ''child'']"

text \<open>\<^verbatim>\<open>TriageAgent.__init__\<close>: the five pattern tables, in the order of the source.\<close>

definition TriageAgent_init :: TriageAgent where
  "TriageAgent_init = \<lparr>
     emergency_indicators = [
       Lit ''difficulty breathing'', Lit ''shortness of breath'', Lit ''chest pain'',
       Seq [Lit ''severe '', Alt [Lit ''pain'', Lit ''bleeding'']],
       Lit ''unconscious'', Lit ''unresponsive'',
       Lit ''stroke'', Lit ''heart attack'', Lit ''seizure'',
       Seq [Lit ''unable to '', Alt [Lit ''speak'', Lit ''move'']],
       Seq [Lit ''sudden '', Alt [Lit ''numbness'', Lit ''weakness'']],
       Seq [Lit ''severe head'', Opt (Lit ''ache''), Lit '' with '',
            Alt [Lit ''fever'', Lit ''stiff neck'']],
       Lit ''suicidal'', Lit ''overdose'', Lit ''poisoning'',
       Seq [child_ref, Star Dot,
            Alt [Lit ''not breathing'', Lit ''turning blue'', Lit ''choking'']],
       Seq [child_ref, Star Dot,
            Alt [Lit ''unresponsive'', Lit ''unconscious'', Lit ''won't wake up'']],
       Seq [child_ref, Star Dot, Alt [Lit ''seizure'', Lit ''convulsion'']],
       Seq [child_ref, Star Dot, Alt [Lit ''severe dehydration'', Lit ''not urinating'']],
       Seq [child_ref, Star Dot,
            Seq [Lit ''rash'', Star Dot, Alt [Lit ''doesn't blanch'', Lit ''doesn't fade'']]],
       Seq [child_ref, Star Dot, Alt [Lit ''lethargic'', Lit ''extremely weak'']],
       Seq [child_ref, Star Dot,
            Seq [Lit ''high fever'', Star Dot, Alt [Lit ''under'', Lit ''less than''],
                 Lit '' '', Alt [Lit ''3'', Lit ''three''], Lit '' months'']]],
     urgent_indicators = [
       Lit ''high fever'', Lit ''persistent vomiting'', Lit ''dehydration'',
       Lit ''infection'', Seq [Lit ''moderate '', Alt [Lit ''pain'', Lit ''bleeding'']],
       Lit ''broken bone'',
       Lit ''deep cut'', Lit ''burn'', Lit ''allergic reaction'', Lit ''pregnancy complication'',
       Seq [Lit ''severe '', Alt [Lit ''rash'', Lit ''swelling'']], Lit ''eye injury'',
       Lit ''mental health crisis'',
       Seq [child_ref, Star Dot,
            Seq [Lit ''fever'', Star Dot, Alt [Lit ''102'', Lit ''103'', Lit ''104'', Lit ''105'']]],
       Seq [child_ref, Star Dot,
            Alt [Lit ''not feeding'', Lit ''refusing to eat'', Lit ''drink'']],
       Seq [child_ref, Star Dot,
            Seq [Lit ''unusual '', Alt [Lit ''crying'', Lit ''screaming'']]],
       Seq [child_ref, Star Dot, Lit ''bulging fontanelle''],
       Seq [child_ref, Star Dot, Alt [Lit ''persistent vomiting'', Lit ''diarrhea'']]],
     semi_urgent_indicators = [
       Seq [Lit ''ear'', Alt [Lit ''ache'', Lit ''infection'']],
       Seq [Lit ''sinus '', Alt [Lit ''pain'', Lit ''infection'']], Lit ''minor infection'',
       Lit ''mild to moderate pain'', Alt [Lit ''sprain'', Lit ''strain''], Lit ''minor injury'',
       Lit ''persistent symptoms'', Lit ''worsening chronic condition'',
       Seq [Lit ''fever'', Star Dot, Alt [Lit ''101'', Lit ''102'']],
       Seq [Lit ''swollen'', Star Dot,
            Alt [Lit ''ankle'', Lit ''joint'', Lit ''knee'', Lit ''wrist'']],
       Seq [Lit ''diarrhea'', Star Dot, Alt [Lit ''3'', Lit ''three'', Lit ''several''],
            Lit '' days''],
       Lit ''persistent diarrhea'',
       Lit ''fall'', Lit ''fell'', Lit ''falling'', Lit ''twisted'', Lit ''twist'',
       Seq [Lit ''asthma'', Star Dot,
            Alt [Lit ''significantly worse'', Lit ''severe'', Lit ''attack'']],
       Seq [Lit ''blood sugar'', Star Dot,
            Alt [Lit ''very high'', Lit ''dangerously high'', Lit ''extremely elevated'']],
       Seq [Alt [Lit ''diabetes'', Lit ''diabetic''], Star Dot,
            Alt [Lit ''uncontrolled'', Lit ''out of control'']],
       Seq [Lit ''back pain'', Star Dot,
            Alt [Lit ''severe'', Lit ''debilitating'', Lit ''can't move'']],
       Seq [child_ref, Star Dot, Alt [Lit ''ear infection'', Lit ''ear pain'']],
       Seq [child_ref, Star Dot,
            Seq [Lit ''fever'', Star Dot, Alt [Lit ''100'', Lit ''101'']]],
       Seq [child_ref, Star Dot, Lit ''mild rash''],
       Seq [child_ref, Star Dot, Alt [Lit ''cough'', Lit ''cold''], Star Dot,
            Lit ''several days'']],
     routine_indicators = [
       Lit ''chronic condition'', Lit ''follow-up'', Lit ''medication refill'',
       Lit ''mild symptoms'', Lit ''general check-up'', Lit ''non-urgent concern'',
       Seq [Lit ''mild '', Alt [Lit ''rash'', Lit ''pain'']], Lit ''routine screening'',
       Seq [Lit ''asthma'', Star Dot, Alt [Lit ''worse'', Lit ''worsening'']],
       Seq [Lit ''persistent'', Star Dot, Alt [Lit ''pain'', Lit ''ache'']],
       Seq [Lit ''blood sugar'', Star Dot,
            Alt [Lit ''higher'', Lit ''elevated'', Lit ''abnormal'']],
       Seq [Alt [Lit ''diabetes'', Lit ''diabetic''], Star Dot,
            Alt [Lit ''control'', Lit ''management'']],
       Seq [Lit ''back pain'', Star Dot,
            Alt [Lit ''chronic'', Lit ''persistent'', Lit ''ongoing'']],
       Alt [Lit ''month'', Lit ''months'', Lit ''week'', Lit ''weeks'', Lit ''day'', Lit ''days''],
       Seq [child_ref, Star Dot, Lit ''mild fever''],
       Seq [child_ref, Star Dot, Alt [Lit ''minor cough'', Lit ''runny nose'']],
       Seq [child_ref, Star Dot, Lit ''diaper rash''],
       Seq [child_ref, Star Dot, Alt [Lit ''feeding question'', Lit ''growth concern'']]],
     self_care_indicators = [
       Lit ''common cold'', Lit ''minor headache'', Lit ''mild fever'', Lit ''sore throat'',
       Lit ''minor cut'', Lit ''scrape'', Lit ''bruise'', Lit ''mild allergies'',
       Lit ''mild digestive issues'', Lit ''general fatigue'', Lit ''tired'', Lit ''fatigue'',
       Lit ''runny nose'', Lit ''sneezing'', Lit ''cough'', Lit ''mild cough'',
       Lit ''occasional cough'',
       Lit ''slight headache'', Lit ''mild pain'', Lit ''minor pain'', Lit ''slight pain'',
       Lit ''itchy'', Lit ''itching'', Lit ''dry skin'', Lit ''rash'', Lit ''minor rash'',
       Lit ''upset stomach'', Lit ''indigestion'', Lit ''gas'', Lit ''bloating'',
       Seq [child_ref, Star Dot, Alt [Lit ''slight fever'', Lit ''low-grade fever'']],
       Seq [child_ref, Star Dot, Alt [Lit ''minor cough'', Lit ''sniffle'']],
       Seq [child_ref, Star Dot, Alt [Lit ''small scrape'', Lit ''minor bruise'']],
       Seq [child_ref, Star Dot, Lit ''teething''],
       Seq [child_ref, Star Dot, Lit ''mild diaper rash''],
       Seq [child_ref, Star Dot, Lit ''occasional fussiness'']] \<rparr>"

text \<open>\<^verbatim>\<open>_check_pattern_match\<close>: the text is lowered, then searched with each pattern in
  turn; the first hit returns at once.\<close>

definition check_pattern_match :: "string \<Rightarrow> rx list \<Rightarrow> bool" where
  "check_pattern_match text patterns = (let text = lower text in list_ex (\<lambda>pattern. re_search pattern text) patterns)"

section \<open>Severity classification\<close>

text \<open>The bullet delimiter \<^verbatim>\<open>"\<close>U+2022\<^verbatim>\<open> "\<close>: the three bytes of the bullet, then a space.\<close>

definition bullet_space :: string where
  "bullet_space = [CHR 0xE2, CHR 0x80, CHR 0xA2, CHR '' '']"

text \<open>The first part of \<^verbatim>\<open>classify_severity\<close>: the report is cut into symptoms, each
  stripped, the empty ones dropped.\<close>

definition symptom_list_of :: "string \<Rightarrow> string list" where
  "symptom_list_of symptoms =
     (let symptom_list = py_split [CHR 0x0A] symptoms;
          symptom_list =
            (if length symptom_list = 1 then
               (if contains '' - '' symptoms then py_split '' - '' symptoms
                else if contains bullet_space symptoms then py_split bullet_space symptoms
                else if contains '', '' symptoms then py_split '', '' symptoms
                else symptom_list)
             else symptom_list)
      in map strip (filter (\<lambda>s. strip s \<noteq> []) symptom_list))"

text \<open>The body of the loop over the symptoms: the severity that one symptom appends.
  An \<^verbatim>\<open>if\<close> nested in an \<^verbatim>\<open>if\<close> with the \<^verbatim>\<open>continue\<close> in the inner one is the
  conjunction of the two tests.\<close>

definition classify_symptom :: "TriageAgent \<Rightarrow> string \<Rightarrow> TriageSeverity" where
  "classify_symptom self symptom =
     (let is_chronic =
            any_in [''chronic'', ''persistent'', ''ongoing'', ''months'', ''weeks''] (lower symptom);
          is_worsening =
            any_in [''worse'', ''worsening'', ''increased'', ''higher'', ''elevated''] (lower symptom)
      in
      if any_in [''severe'', ''extreme'', ''intense'', ''unbearable'', ''worst''] (lower symptom)
         \<and> any_in [''pain'', ''headache'', ''chest'', ''breathing''] (lower symptom)
      then EMERGENCY
      else if contains ''asthma'' (lower symptom) then
        (if any_in [''attack'', ''can't breathe'', ''severe'', ''emergency''] (lower symptom)
         then EMERGENCY
         else if is_worsening then SEMI_URGENT
         else ROUTINE)
      else if contains ''blood sugar'' (lower symptom) \<or> contains ''diabetes'' (lower symptom) then
        (if any_in [''very high'', ''extremely'', ''dangerously''] (lower symptom) then URGENT
         else if is_worsening then SEMI_URGENT
         else ROUTINE)
      else if contains ''back pain'' (lower symptom) then
        (if any_in [''severe'', ''can't move'', ''debilitating''] (lower symptom) then SEMI_URGENT
         else if is_chronic then ROUTINE
         else SELF_CARE)
      else if check_pattern_match symptom (emergency_indicators self) then EMERGENCY
      else if check_pattern_match symptom (urgent_indicators self) then URGENT
      else if check_pattern_match symptom (semi_urgent_indicators self) then SEMI_URGENT
      else if check_pattern_match symptom (routine_indicators self) then ROUTINE
      else if is_chronic \<and> is_worsening then ROUTINE
      else SELF_CARE)"

definition severity_order :: "(TriageSeverity \<times> nat) list" where
  "severity_order =
     [(EMERGENCY, 0), (URGENT, 1), (SEMI_URGENT, 2), (ROUTINE, 3), (SELF_CARE, 4)]"

text \<open>\<^verbatim>\<open>list.sort(key=...)\<close> computes the key of every element first (a failing key ends
  the sort), then sorts stably by the keys.\<close>

fun keyed :: "('a \<Rightarrow> py_error + nat) \<Rightarrow> 'a list \<Rightarrow> py_error + (nat \<times> 'a) list" where
  "keyed key [] = Inr []"
| "keyed key (x # xs) =
     (case key x of
        Inl e \<Rightarrow> Inl e
      | Inr k \<Rightarrow> (case keyed key xs of Inl e \<Rightarrow> Inl e | Inr ks \<Rightarrow> Inr ((k, x) # ks)))"

definition sort_by :: "('a \<Rightarrow> py_error + nat) \<Rightarrow> 'a list \<Rightarrow> py_error + 'a list" where
  "sort_by key xs =
     (case keyed key xs of Inl e \<Rightarrow> Inl e | Inr ks \<Rightarrow> Inr (map snd (sort_key fst ks)))"

text \<open>The last part of \<^verbatim>\<open>classify_severity\<close>: the most severe of the collected levels,
  or the default when there is none.\<close>

definition most_severe_of :: "TriageSeverity list \<Rightarrow> py_error + TriageSeverity" where
  "most_severe_of severity_levels =
     (if severity_levels \<noteq> [] then
        (case sort_by (dict_get severity_order) severity_levels of
           Inl e \<Rightarrow> Inl e
         | Inr sorted_levels \<Rightarrow>
             (case sorted_levels of [] \<Rightarrow> Inl IndexError | most_severe # _ \<Rightarrow> Inr most_severe))
      else Inr SELF_CARE)"

definition classify_severity :: "TriageAgent \<Rightarrow> string \<Rightarrow> py_error + TriageSeverity" where
  "classify_severity self symptoms =
     most_severe_of (map (classify_symptom self) (symptom_list_of symptoms))"

section \<open>Pathway, pediatric cases, instructions\<close>

definition pathway_map :: "(TriageSeverity \<times> CarePathway) list" where
  "pathway_map =
     [(EMERGENCY, EMERGENCY_ROOM), (URGENT, URGENT_CARE), (SEMI_URGENT, PRIMARY_CARE),
      (ROUTINE, TELEHEALTH), (SELF_CARE, SELF_MANAGEMENT)]"

definition recommend_care_pathway :: "TriageSeverity \<Rightarrow> py_error + CarePathway" where
  "recommend_care_pathway sev = dict_get pathway_map sev"

definition pediatric_indicators :: "rx list" where
  "pediatric_indicators = [
     Alt [Lit ''baby'', Lit ''infant'', Lit ''child'', Lit ''kid'', Lit ''toddler'', Lit ''newborn''],
     Seq [Plus Digit, Star Space_or_dash, Alt [Lit ''month'', Lit ''year'', Lit ''week''],
          Star Space_or_dash, Lit ''old''],
     Lit ''my son'', Lit ''my daughter'',
     Lit ''pediatric'', Lit ''children'']"

text \<open>\<^verbatim>\<open>_is_pediatric_case\<close>\<close>

definition is_pediatric_case :: "string \<Rightarrow> bool" where
  "is_pediatric_case symptoms = check_pattern_match symptoms pediatric_indicators"

definition pediatric_instructions :: "(CarePathway \<times> string) list" where
  "pediatric_instructions = [
     (EMERGENCY_ROOM,
        ''SEEK IMMEDIATE MEDICAL ATTENTION FOR YOUR CHILD. Go to the nearest pediatric emergency room or call emergency services (911). '' @
        ''For infants and young children, emergency symptoms require immediate professional evaluation.''),
     (URGENT_CARE,
        ''Take your child to a pediatric urgent care center within 24 hours. If symptoms worsen, go to the emergency room immediately. '' @
        ''Children can deteriorate quickly, so close monitoring is essential.''),
     (PRIMARY_CARE,
        ''Schedule an appointment with your child's pediatrician within the next few days. '' @
        ''In the meantime, monitor your child's symptoms closely and ensure they stay hydrated.''),
     (TELEHEALTH,
        ''Consider scheduling a telehealth appointment with your child's pediatrician. '' @
        ''Have a thermometer and other relevant home medical equipment ready for the consultation.''),
     (SELF_MANAGEMENT,
        ''Your child's symptoms can likely be managed at home with appropriate care. '' @
        ''Ensure they get plenty of rest, stay hydrated, and monitor their temperature regularly. '' @
        ''If symptoms persist beyond 48 hours, worsen suddenly, or if your child appears unusually lethargic, consult a healthcare provider.'')]"

definition adult_instructions :: "(CarePathway \<times> string) list" where
  "adult_instructions = [
     (EMERGENCY_ROOM,
        ''SEEK IMMEDIATE MEDICAL ATTENTION. Go to the nearest emergency room or call emergency services (911).''),
     (URGENT_CARE,
        ''Visit an urgent care center within 24 hours. If symptoms worsen, go to the emergency room.''),
     (PRIMARY_CARE,
        ''Schedule an appointment with your primary care physician within the next few days.''),
     (TELEHEALTH,
        ''Consider scheduling a telehealth appointment with a healthcare provider.''),
     (SELF_MANAGEMENT,
        ''Your symptoms can likely be managed at home with rest and over-the-counter remedies. '' @
        ''If symptoms persist or worsen, consult a healthcare provider.'')]"

definition get_care_instructions :: "CarePathway \<Rightarrow> string \<Rightarrow> py_error + string" where
  "get_care_instructions pathway symptoms =
     (let is_pediatric = is_pediatric_case symptoms;
          instruction_table = (if is_pediatric then pediatric_instructions else adult_instructions)
      in dict_get instruction_table pathway)"

record TriageResult =
  severity :: string
  care_pathway :: string
  instructions :: string

definition triage_symptoms :: "TriageAgent \<Rightarrow> string \<Rightarrow> py_error + TriageResult" where
  "triage_symptoms self symptoms =
     (case classify_severity self symptoms of
        Inl e \<Rightarrow> Inl e
      | Inr sev \<Rightarrow>
          (case recommend_care_pathway sev of
             Inl e \<Rightarrow> Inl e
           | Inr pathway \<Rightarrow>
               (case get_care_instructions pathway symptoms of
                  Inl e \<Rightarrow> Inl e
                | Inr text \<Rightarrow>
                    Inr \<lparr> severity = severity_value sev,
                          care_pathway = pathway_value pathway,
                          instructions = text \<rparr>)))"

section \<open>The caller: fallback texts of the generation step\<close>

text \<open>
  \<^verbatim>\<open>analyze_symptoms\<close> in \<^verbatim>\<open>app.py\<close> asks an external service for a text. What the
  service and the network do is an input of the model: an exception raised by the health
  check or by the request, or a reply. Each exception carries its \<^verbatim>\<open>str(e)\<close>. The
  built-in \<^verbatim>\<open>ConnectionError\<close> that the code raises itself is not the class of the same
  name of the \<^verbatim>\<open>requests\<close> library, and neither is a subclass of the other.
\<close>

datatype request_error =
    Requests_Timeout string
  | Requests_ConnectionError string
  | Builtin_ConnectionError string
  | ValueError string
  | Other_exception string

fun exception_str :: "request_error \<Rightarrow> string" where
  "exception_str (Requests_Timeout m) = m"
| "exception_str (Requests_ConnectionError m) = m"
| "exception_str (Builtin_ConnectionError m) = m"
| "exception_str (ValueError m) = m"
| "exception_str (Other_exception m) = m"

text \<open>The \<^verbatim>\<open>except\<close> clauses around the health check: what leaves the inner \<^verbatim>\<open>try\<close>.\<close>

fun health_check_except :: "request_error \<Rightarrow> request_error" where
  "health_check_except (Requests_ConnectionError m) =
     Builtin_ConnectionError ''Ollama service is not running''"
| "health_check_except (Requests_Timeout m) =
     Builtin_ConnectionError ''Ollama service is not running''"
| "health_check_except (ValueError m) =
     Builtin_ConnectionError ''Error checking Ollama model availability''"
| "health_check_except e = e"

text \<open>The \<^verbatim>\<open>except\<close> clauses of the outer \<^verbatim>\<open>try\<close>, in their order; the first argument is
  \<^verbatim>\<open>triage_result["severity"]\<close>.\<close>

fun generation_except :: "string \<Rightarrow> request_error \<Rightarrow> string" where
  "generation_except sev (Requests_Timeout m) =
     (if sev = ''emergency'' then
        ''MEDICAL EMERGENCY DETECTED: Your symptoms suggest a potentially life-threatening condition that requires IMMEDIATE medical attention. '' @
        ''Please call emergency services (911) or go to the nearest emergency room immediately. '' @
        ''Do not wait for the AI analysis to complete.''
      else
        ''I apologize for the delay. The analysis is taking longer than expected. Please try again with a more concise description of your main symptoms.'')"
| "generation_except sev (Requests_ConnectionError m) =
     ''I'm unable to connect to the medical AI service at the moment. Please ensure Ollama is running with the medllama2 model loaded.''"
| "generation_except sev e =
     ''An unexpected error occurred: '' @ exception_str e @ ''. Please try again with a simpler description.''"

text \<open>A reply of the service: not JSON, a JSON object with an \<^verbatim>\<open>error\<close> entry, or a
  JSON object without one, of which the response text is taken.\<close>

datatype ollama_reply = Not_json | Error_reply string | Text_reply string

fun reply_response :: "ollama_reply \<Rightarrow> string" where
  "reply_response Not_json =
     ''I apologize, but I encountered an issue processing your symptoms. Please try again with a more concise description.''"
| "reply_response (Error_reply error_msg) =
     (if contains ''model requires more system memory'' error_msg then
        ''The medical AI model requires more memory than is currently available on this system. '' @
        ''Please try again later when more system resources are available, or consider using a smaller model.''
      else ''The medical AI encountered an error: '' @ error_msg @ ''. Please try again later.'')"
| "reply_response (Text_reply t) = t"

datatype generation_event =
    Health_check_raises request_error
  | Health_check_status_not_200
  | Model_not_listed
  | Post_raises request_error
  | Post_returns ollama_reply

text \<open>Step 4 of \<^verbatim>\<open>analyze_symptoms\<close>: the text \<^verbatim>\<open>ai_response\<close> for a severity value and
  an event.\<close>

fun ai_response :: "string \<Rightarrow> generation_event \<Rightarrow> string" where
  "ai_response sev (Health_check_raises e) = generation_except sev (health_check_except e)"
| "ai_response sev Health_check_status_not_200 =
     generation_except sev (health_check_except (Builtin_ConnectionError ''Ollama health check failed''))"
| "ai_response sev Model_not_listed =
     generation_except sev
       (health_check_except (Builtin_ConnectionError ''Model medllama2 not available in Ollama''))"
| "ai_response sev (Post_raises e) = generation_except sev e"
| "ai_response sev (Post_returns r) = reply_response r"

text \<open>A text directs the reader to emergency services when it names them.\<close>

definition directs_to_emergency_services :: "string \<Rightarrow> bool" where
  "directs_to_emergency_services text = contains ''emergency services'' (lower text)"

section \<open>The specification's formulations\<close>

text \<open>The explicit ordinal of a severity tier: Emergency = 0 < Urgent = 1 < SemiUrgent = 2
  < Routine = 3 < SelfCare = 4.\<close>

fun tier_ordinal :: "TriageSeverity \<Rightarrow> nat" where
  "tier_ordinal EMERGENCY = 0"
| "tier_ordinal URGENT = 1"
| "tier_ordinal SEMI_URGENT = 2"
| "tier_ordinal ROUTINE = 3"
| "tier_ordinal SELF_CARE = 4"



text \<open>The unit classifier as the specification words it: an ordered list of rules, each
  a test and an outcome, of which the first whose test holds decides; the default is
  SelfCare.\<close>

type_synonym rule = "(string \<Rightarrow> bool) \<times> (string \<Rightarrow> TriageSeverity)"

fun first_match :: "rule list \<Rightarrow> string \<Rightarrow> TriageSeverity" where
  "first_match [] unit = SELF_CARE"
| "first_match ((applies, outcome) # rules) unit =
     (if applies unit then outcome unit else first_match rules unit)"

definition chronic_terms :: "string list" where
  "chronic_terms = [''chronic'', ''persistent'', ''ongoing'', ''months'', ''weeks'']"

definition worsening_terms :: "string list" where
  "worsening_terms = [''worse'', ''worsening'', ''increased'', ''higher'', ''elevated'']"

definition intensifier_override :: "string \<Rightarrow> bool" where
  "intensifier_override unit =
     (any_in [''severe'', ''extreme'', ''intense'', ''unbearable'', ''worst''] (lower unit)
      \<and> any_in [''pain'', ''headache'', ''chest'', ''breathing''] (lower unit))"

definition asthma_override :: rule where
  "asthma_override =
     (\<lambda>unit. contains ''asthma'' (lower unit),
      \<lambda>unit. if any_in [''attack'', ''can't breathe'', ''severe'', ''emergency''] (lower unit)
             then EMERGENCY
             else if any_in worsening_terms (lower unit) then SEMI_URGENT
             else ROUTINE)"

definition blood_sugar_override :: rule where
  "blood_sugar_override =
     (\<lambda>unit. contains ''blood sugar'' (lower unit) \<or> contains ''diabetes'' (lower unit),
      \<lambda>unit. if any_in [''very high'', ''extremely'', ''dangerously''] (lower unit) then URGENT
             else if any_in worsening_terms (lower unit) then SEMI_URGENT
             else ROUTINE)"

definition back_pain_override :: rule where
  "back_pain_override =
     (\<lambda>unit. contains ''back pain'' (lower unit),
      \<lambda>unit. if any_in [''severe'', ''can't move'', ''debilitating''] (lower unit) then SEMI_URGENT
             else if any_in chronic_terms (lower unit) then ROUTINE
             else SELF_CARE)"

definition ordered_rules :: "TriageAgent \<Rightarrow> rule list" where
  "ordered_rules self =
     [(intensifier_override, \<lambda>unit. EMERGENCY),
      asthma_override,
      blood_sugar_override,
      back_pain_override,
      (\<lambda>unit. check_pattern_match unit (emergency_indicators self), \<lambda>unit. EMERGENCY),
      (\<lambda>unit. check_pattern_match unit (urgent_indicators self), \<lambda>unit. URGENT),
      (\<lambda>unit. check_pattern_match unit (semi_urgent_indicators self), \<lambda>unit. SEMI_URGENT),
      (\<lambda>unit. check_pattern_match unit (routine_indicators self), \<lambda>unit. ROUTINE),
      (\<lambda>unit. any_in chronic_terms (lower unit) \<and> any_in worsening_terms (lower unit),
       \<lambda>unit. ROUTINE)]"

section \<open>Evaluating the text primitives on literals\<close>

text \<open>The tests on a character, read off its eight bits (lowest first): rewriting with
  these equations computes \<open>lower\<close>, \<open>strip\<close> and the matcher on a string literal without
  arithmetic.\<close>

lemma lower_char_Char:
  "lower_char (Char b0 b1 b2 b3 b4 b5 b6 b7) =
     (if \<not> b7 \<and> b6 \<and> \<not> b5 \<and> (b0 \<or> b1 \<or> b2 \<or> b3 \<or> b4) \<and> \<not> (b4 \<and> b3 \<and> (b2 \<or> (b1 \<and> b0)))
      then Char b0 b1 b2 b3 b4 True b6 b7 else Char b0 b1 b2 b3 b4 b5 b6 b7)"
  by (cases b0; cases b1; cases b2; cases b3; cases b4; cases b5; cases b6; cases b7;
      simp add: lower_char_def char_of_def bit_0 bit_Suc)

lemma is_space_Char:
  "is_space (Char b0 b1 b2 b3 b4 b5 b6 b7) =
     (\<not> b7 \<and> \<not> b6 \<and>
      ((\<not> b5 \<and> \<not> b4 \<and> b3 \<and> (b0 \<or> b1 \<or> b2) \<and> \<not> (b2 \<and> b1))
       \<or> (\<not> b5 \<and> b4 \<and> b3 \<and> b2)
       \<or> (b5 \<and> \<not> b4 \<and> \<not> b3 \<and> \<not> b2 \<and> \<not> b1 \<and> \<not> b0)))"
  by (cases b0; cases b1; cases b2; cases b3; cases b4; cases b5; cases b6; cases b7;
      simp add: is_space_def)

lemma cls_ok_Digit_Char:
  "cls_ok Digit (Char b0 b1 b2 b3 b4 b5 b6 b7) =
     (\<not> b7 \<and> \<not> b6 \<and> b5 \<and> b4 \<and> (\<not> b3 \<or> (\<not> b2 \<and> \<not> b1)))"
  by (cases b0; cases b1; cases b2; cases b3; cases b4; cases b5; cases b6; cases b7; simp)

lemmas char_evals = lower_def lower_char_Char is_space_Char cls_ok_Digit_Char
lemmas match_evals = char_evals check_pattern_match_def any_in_def child_ref_def

lemma units_example:
  "symptom_list_of ''mild rash\<newline>chest pain'' = [''mild rash'', ''chest pain'']"
  unfolding symptom_list_of_def Let_def
  apply (simp only: py_split.simps)
  apply (simp add: strip_def is_space_Char)
  done


section \<open>Facts about splitting and stripping\<close>














section \<open>The aggregation\<close>

lemma dict_get_severity_order: "dict_get severity_order t = Inr (tier_ordinal t)"
  by (cases t) (simp_all add: dict_get_def severity_order_def)

lemma keyed_total: "keyed (\<lambda>x. Inr (f x)) xs = Inr (map (\<lambda>x. (f x, x)) xs)"
  by (induction xs) simp_all

lemma insort_pairs:
  "insort_key fst (f x, x) (map (\<lambda>y. (f y, y)) ys) = map (\<lambda>y. (f y, y)) (insort_key f x ys)"
  by (induction ys) simp_all

lemma sort_pairs: "sort_key fst (map (\<lambda>y. (f y, y)) xs) = map (\<lambda>y. (f y, y)) (sort_key f xs)"
  by (induction xs) (simp_all add: insort_pairs)

lemma sort_by_total: "sort_by (\<lambda>x. Inr (f x)) xs = Inr (sort_key f xs)"
  by (simp add: sort_by_def keyed_total sort_pairs comp_def)

lemma sort_by_severity_order: "sort_by (dict_get severity_order) xs = Inr (sort_key tier_ordinal xs)"
proof -
  have "dict_get severity_order = (\<lambda>t. Inr (tier_ordinal t))"
    by (rule ext) (rule dict_get_severity_order)
  then show ?thesis by (simp add: sort_by_total)
qed

lemma sort_key_head_least:
  assumes "sort_key f xs = y # ys"
  shows "y \<in> set xs \<and> (\<forall>x \<in> set xs. f y \<le> f x)"
proof -
  have s: "set (sort_key f xs) = set xs" by simp
  have "sorted (map f (sort_key f xs))" by (rule sorted_sort_key)
  with assms have "\<forall>x \<in> set ys. f y \<le> f x" by simp
  moreover from s assms have "set xs = insert y (set ys)" by simp
  ultimately show ?thesis by auto
qed

lemma most_severe_of_least:
  assumes "levels \<noteq> []"
  shows "\<exists>sev. most_severe_of levels = Inr sev \<and> sev \<in> set levels
               \<and> (\<forall>t \<in> set levels. tier_ordinal sev \<le> tier_ordinal t)"
proof -
  from assms have "sort_key tier_ordinal levels \<noteq> []"
    by (metis length_sort length_0_conv)
  then obtain y ys where ys: "sort_key tier_ordinal levels = y # ys"
    by (cases "sort_key tier_ordinal levels") auto
  then have "most_severe_of levels = Inr y"
    using assms by (simp add: most_severe_of_def sort_by_severity_order)
  with sort_key_head_least [OF ys] show ?thesis by blast
qed

lemma tier_ordinal_inj: "tier_ordinal a = tier_ordinal b \<Longrightarrow> a = b"
  by (cases a; cases b) simp_all

lemma most_severe_of_total: "\<exists>sev. most_severe_of levels = Inr sev"
proof (cases "levels = []")
  case True
  then show ?thesis by (simp add: most_severe_of_def)
next
  case False
  from most_severe_of_least [OF this] show ?thesis by blast
qed

lemma most_severe_of_set:
  assumes "set us = set vs"
  shows "most_severe_of us = most_severe_of vs"
proof (cases "us = []")
  case True
  with assms have "vs = []" by simp
  with True show ?thesis by simp
next
  case False
  with assms have nv: "vs \<noteq> []" by auto
  from most_severe_of_least [OF False] obtain a where
    a: "most_severe_of us = Inr a" "a \<in> set us" "\<forall>t \<in> set us. tier_ordinal a \<le> tier_ordinal t"
    by blast
  from most_severe_of_least [OF nv] obtain b where
    b: "most_severe_of vs = Inr b" "b \<in> set vs" "\<forall>t \<in> set vs. tier_ordinal b \<le> tier_ordinal t"
    by blast
  from a b assms have "tier_ordinal a = tier_ordinal b"
    by (simp add: order_antisym)
  then have "a = b" by (rule tier_ordinal_inj)
  with a b show ?thesis by simp
qed

lemma recommend_total: "\<exists>p. recommend_care_pathway t = Inr p"
  by (cases t) (simp_all add: recommend_care_pathway_def dict_get_def pathway_map_def)

lemma instructions_total: "\<exists>instr. get_care_instructions p s = Inr instr"
  by (cases p) (simp_all add: get_care_instructions_def dict_get_def pediatric_instructions_def adult_instructions_def Let_def)



lemma triage_symptoms_fields:
  assumes "classify_severity self symptoms = Inr sev" "recommend_care_pathway sev = Inr pathway"
  shows "\<exists>instr.
           dict_get (if is_pediatric_case symptoms then pediatric_instructions
                     else adult_instructions) pathway = Inr instr
           \<and> triage_symptoms self symptoms =
               Inr \<lparr>severity = severity_value sev, care_pathway = pathway_value pathway,
                    instructions = instr\<rparr>"
proof -
  from instructions_total obtain instr where
    i: "get_care_instructions pathway symptoms = Inr instr" by blast
  then have "dict_get (if is_pediatric_case symptoms then pediatric_instructions
                     else adult_instructions) pathway = Inr instr"
    by (simp add: get_care_instructions_def Let_def)
  with assms i show ?thesis by (simp add: triage_symptoms_def)
qed



section \<open>Evaluated examples\<close>

lemma mild_rash_tables:
  "check_pattern_match ''mild rash'' (emergency_indicators TriageAgent_init) = False"
  "check_pattern_match ''mild rash'' (urgent_indicators TriageAgent_init) = False"
  "check_pattern_match ''mild rash'' (semi_urgent_indicators TriageAgent_init) = False"
  "check_pattern_match ''mild rash'' (routine_indicators TriageAgent_init) = True"
  unfolding TriageAgent_init_def TriageAgent.select_convs
  by (simp_all add: match_evals)

lemma mild_rash_routine: "classify_symptom TriageAgent_init ''mild rash'' = ROUTINE"
  by (simp add: classify_symptom_def mild_rash_tables any_in_def char_evals)

lemma chest_pain_tables:
  "check_pattern_match ''chest pain'' (emergency_indicators TriageAgent_init) = True"
  unfolding TriageAgent_init_def TriageAgent.select_convs
  by (simp_all add: match_evals)

lemma chest_pain_emergency: "classify_symptom TriageAgent_init ''chest pain'' = EMERGENCY"
  by (simp add: classify_symptom_def chest_pain_tables any_in_def char_evals)

lemma worst_of_example: "most_severe_of [ROUTINE, EMERGENCY] = Inr EMERGENCY"
  by (simp add: most_severe_of_def sort_by_severity_order)



lemma units_chest_pain: "symptom_list_of ''chest pain'' = [''chest pain'']"
  unfolding symptom_list_of_def Let_def
  apply (simp only: py_split.simps)
  apply (simp add: strip_def is_space_Char bullet_space_def)
  done


lemma worst_of_single: "most_severe_of [t] = Inr t"
  by (simp add: most_severe_of_def sort_by_severity_order)

lemma chest_pain_severity: "classify_severity TriageAgent_init ''chest pain'' = Inr EMERGENCY"
  by (simp add: classify_severity_def units_chest_pain chest_pain_emergency worst_of_single)




section \<open>The claims about the aggregation\<close>

text \<open>
  Claim C1. Whenever the report yields at least one symptom, \<open>classify_severity\<close> returns
  a tier, that tier is one of the tiers of the symptoms, and its ordinal (Emergency = 0,
  Urgent = 1, SemiUrgent = 2, Routine = 3, SelfCare = 4) is the least among them.
\<close>

theorem classify_severity_most_severe:
  assumes "symptom_list_of symptoms \<noteq> []"
  shows "\<exists>sev. classify_severity self symptoms = Inr sev
           \<and> sev \<in> set (map (classify_symptom self) (symptom_list_of symptoms))
           \<and> tier_ordinal sev =
               Min (tier_ordinal ` set (map (classify_symptom self) (symptom_list_of symptoms)))"
proof -
  let ?levels = "map (classify_symptom self) (symptom_list_of symptoms)"
  from assms have "?levels \<noteq> []" by simp
  from most_severe_of_least [OF this] obtain sev where
    s: "most_severe_of ?levels = Inr sev" "sev \<in> set ?levels"
       "\<forall>t \<in> set ?levels. tier_ordinal sev \<le> tier_ordinal t"
    by blast
  have "Min (tier_ordinal ` set ?levels) = tier_ordinal sev"
    by (rule Min_eqI) (use s in auto)
  with s show ?thesis by (simp add: classify_severity_def)
qed

theorem classify_severity_most_severe_witness:
  "symptom_list_of ''mild rash\<newline>chest pain'' \<noteq> []
   \<and> (\<exists>sev. classify_severity TriageAgent_init ''mild rash\<newline>chest pain'' = Inr sev
         \<and> sev \<in> set (map (classify_symptom TriageAgent_init)
                        (symptom_list_of ''mild rash\<newline>chest pain''))
         \<and> tier_ordinal sev =
             Min (tier_ordinal ` set (map (classify_symptom TriageAgent_init)
                        (symptom_list_of ''mild rash\<newline>chest pain''))))"
proof -
  have h: "symptom_list_of ''mild rash\<newline>chest pain'' \<noteq> []"
    by (simp only: units_example) simp
  from h classify_severity_most_severe [OF h, of TriageAgent_init] show ?thesis
    by (rule conjI)
qed

text \<open>
  Claim C9. The overall severity of a list of symptoms does not depend on their order:
  two lists that are permutations of each other aggregate to the same tier.
\<close>

theorem aggregation_order_irrelevant:
  assumes "mset us = mset vs"
  shows "most_severe_of (map (classify_symptom self) us)
         = most_severe_of (map (classify_symptom self) vs)"
proof -
  from assms have "set us = set vs" by (rule mset_eq_setD)
  then have "set (map (classify_symptom self) us) = set (map (classify_symptom self) vs)"
    by simp
  then show ?thesis by (rule most_severe_of_set)
qed

theorem aggregation_order_irrelevant_witness:
  "mset [''mild rash'', ''chest pain''] = mset [''chest pain'', ''mild rash'']
   \<and> most_severe_of (map (classify_symptom TriageAgent_init) [''mild rash'', ''chest pain''])
     = most_severe_of (map (classify_symptom TriageAgent_init) [''chest pain'', ''mild rash''])"
proof -
  have h: "mset [''mild rash'', ''chest pain''] = mset [''chest pain'', ''mild rash'']"
    by (simp add: add.commute)
  from h aggregation_order_irrelevant [OF h, of TriageAgent_init] show ?thesis
    by (rule conjI)
qed

section \<open>The unit classifier\<close>

text \<open>
  Claim C2. The tier of one symptom is the outcome of the first rule that applies, the
  rules being tried in this order: intensifier with pain or breathing term (Emergency);
  the overrides for asthma, for blood sugar or diabetes, for back pain; the pattern
  tables Emergency, Urgent, SemiUrgent, Routine; a chronic term with a worsening term
  (Routine); and SelfCare when no rule applies. Being the value of a function, the tier is
  exactly one.
\<close>

theorem classify_symptom_rule_order:
  "classify_symptom self unit = first_match (ordered_rules self) unit"
  unfolding classify_symptom_def ordered_rules_def intensifier_override_def
    asthma_override_def blood_sugar_override_def back_pain_override_def
    chronic_terms_def worsening_terms_def Let_def
  by (simp only: first_match.simps)

section \<open>The segmenter\<close>





section \<open>The worked example\<close>

text \<open>
  Claim C7, amended. The text \<^verbatim>\<open>mild rash\<close>, newline, \<^verbatim>\<open>chest pain\<close> is cut into the
  two symptoms \<^verbatim>\<open>mild rash\<close> and \<^verbatim>\<open>chest pain\<close>; their tiers are Routine (the routine
  table holds the pattern \<^verbatim>\<open>mild (rash|pain)\<close>) and Emergency; the overall severity is
  Emergency and its pathway EmergencyRoom.
\<close>

theorem worked_example_rash_chest_pain:
  "symptom_list_of ''mild rash\<newline>chest pain'' = [''mild rash'', ''chest pain'']
   \<and> map (classify_symptom TriageAgent_init) [''mild rash'', ''chest pain''] = [ROUTINE, EMERGENCY]
   \<and> classify_severity TriageAgent_init ''mild rash\<newline>chest pain'' = Inr EMERGENCY
   \<and> recommend_care_pathway EMERGENCY = Inr EMERGENCY_ROOM"
  by (simp add: classify_severity_def units_example mild_rash_routine chest_pain_emergency
        worst_of_example recommend_care_pathway_def dict_get_def pathway_map_def)

text \<open>
  Claim C7 as stated fails: the tiers of the two symptoms are not SelfCare and Emergency.
\<close>

theorem mild_rash_not_self_care:
  "map (classify_symptom TriageAgent_init)
     (symptom_list_of ''mild rash\<newline>chest pain'') \<noteq> [SELF_CARE, EMERGENCY]"
  by (simp add: units_example mild_rash_routine)


section \<open>The whole triage\<close>





text \<open>
  Claim C5. The pathway of a severity is read off the fixed table Emergency to
  EmergencyRoom, Urgent to UrgentCare, SemiUrgent to PrimaryCare, Routine to Telehealth,
  SelfCare to SelfManagement; the lookup never fails, no two tiers share a pathway, and
  the severity and the pathway of every triage result are related by the table.
\<close>

theorem pathway_table_total_injective:
  "recommend_care_pathway EMERGENCY = Inr EMERGENCY_ROOM
   \<and> recommend_care_pathway URGENT = Inr URGENT_CARE
   \<and> recommend_care_pathway SEMI_URGENT = Inr PRIMARY_CARE
   \<and> recommend_care_pathway ROUTINE = Inr TELEHEALTH
   \<and> recommend_care_pathway SELF_CARE = Inr SELF_MANAGEMENT
   \<and> inj recommend_care_pathway
   \<and> (\<exists>sev pathway instr.
         triage_symptoms self symptoms =
           Inr \<lparr>severity = severity_value sev, care_pathway = pathway_value pathway,
                instructions = instr\<rparr>
         \<and> recommend_care_pathway sev = Inr pathway)"
proof -
  have tbl: "recommend_care_pathway EMERGENCY = Inr EMERGENCY_ROOM"
    "recommend_care_pathway URGENT = Inr URGENT_CARE"
    "recommend_care_pathway SEMI_URGENT = Inr PRIMARY_CARE"
    "recommend_care_pathway ROUTINE = Inr TELEHEALTH"
    "recommend_care_pathway SELF_CARE = Inr SELF_MANAGEMENT"
    by (simp_all add: recommend_care_pathway_def dict_get_def pathway_map_def)
  have "inj recommend_care_pathway"
  proof (rule injI)
    fix a b assume "recommend_care_pathway a = recommend_care_pathway b"
    then show "a = b" by (cases a; cases b) (simp_all add: tbl)
  qed
  moreover obtain sev where sev: "classify_severity self symptoms = Inr sev"
    using most_severe_of_total by (auto simp: classify_severity_def)
  moreover obtain pathway where p: "recommend_care_pathway sev = Inr pathway"
    using recommend_total by blast
  moreover obtain instr where "get_care_instructions pathway symptoms = Inr instr"
    using instructions_total by blast
  ultimately show ?thesis using tbl by (auto simp: triage_symptoms_def)
qed





section \<open>The duration rule and the self-care table\<close>

lemma ci_prefix_of_prefix: "prefix l s \<Longrightarrow> ci_prefix l s"
  by (induction l s rule: ci_prefix.induct) simp_all

lemma contains_re_search_Lit: "contains l s \<Longrightarrow> re_search (Lit l) s"
  by (induction s) (auto simp: ci_prefix_of_prefix)

lemma rests_alt_member: "r \<in> set rs \<Longrightarrow> rests r s \<noteq> [] \<Longrightarrow> rests_alt rs s \<noteq> []"
  by (induction rs) auto

lemma re_search_Alt: "r \<in> set rs \<Longrightarrow> re_search r s \<Longrightarrow> re_search (Alt rs) s"
  by (induction s) (auto simp: rests_alt_member)

lemma check_pattern_match_member:
  "p \<in> set ps \<Longrightarrow> re_search p (lower u) \<Longrightarrow> check_pattern_match u ps"
  by (auto simp: check_pattern_match_def list_ex_iff)

lemma duration_pattern_listed:
  "Alt [Lit ''month'', Lit ''months'', Lit ''week'', Lit ''weeks'', Lit ''day'', Lit ''days'']
     \<in> set (routine_indicators TriageAgent_init)"
  unfolding TriageAgent_init_def TriageAgent.select_convs by simp

lemma duration_matches_routine:
  assumes "any_in [''day'', ''days'', ''week'', ''weeks'', ''month'', ''months''] (lower u)"
  shows "check_pattern_match u (routine_indicators TriageAgent_init)"
proof -
  from assms obtain l where
    l: "l \<in> set [''month'', ''months'', ''week'', ''weeks'', ''day'', ''days'']"
       "contains l (lower u)"
    by (auto simp: any_in_def)
  from l(2) have "re_search (Lit l) (lower u)" by (rule contains_re_search_Lit)
  moreover from l(1) have
    "Lit l \<in> set [Lit ''month'', Lit ''months'', Lit ''week'', Lit ''weeks'', Lit ''day'', Lit ''days'']"
    by auto
  ultimately have
    "re_search (Alt [Lit ''month'', Lit ''months'', Lit ''week'', Lit ''weeks'', Lit ''day'', Lit ''days''])
       (lower u)"
    by (rule re_search_Alt [rotated])
  with duration_pattern_listed show ?thesis by (rule check_pattern_match_member)
qed

lemma duration_routine:
  assumes "any_in [''day'', ''days'', ''week'', ''weeks'', ''month'', ''months''] (lower u)"
    and "\<not> intensifier_override u"
    and "\<not> contains ''asthma'' (lower u)"
    and "\<not> contains ''blood sugar'' (lower u)" "\<not> contains ''diabetes'' (lower u)"
    and "\<not> contains ''back pain'' (lower u)"
    and "\<not> check_pattern_match u (emergency_indicators TriageAgent_init)"
    and "\<not> check_pattern_match u (urgent_indicators TriageAgent_init)"
    and "\<not> check_pattern_match u (semi_urgent_indicators TriageAgent_init)"
  shows "classify_symptom TriageAgent_init u = ROUTINE"
proof -
  from assms(1) have "check_pattern_match u (routine_indicators TriageAgent_init)"
    by (rule duration_matches_routine)
  with assms(2-) show ?thesis
    unfolding classify_symptom_def intensifier_override_def Let_def
    by (simp only: if_False if_True simp_thms)
qed

lemma self_care_list_unused:
  "classify_symptom (self\<lparr>self_care_indicators := ps\<rparr>) u = classify_symptom self u"
  by (cases self)
    (simp only: classify_symptom_def TriageAgent.update_convs TriageAgent.select_convs)

lemma first_match_self_care:
  "first_match rules u = SELF_CARE \<Longrightarrow>
     list_ex (\<lambda>rule. fst rule u \<and> snd rule u = SELF_CARE) rules
     \<or> \<not> list_ex (\<lambda>rule. fst rule u) rules"
  by (induction rules u rule: first_match.induct) (auto split: if_splits)

lemma self_care_rule_is_back_pain:
  "list_ex (\<lambda>rule. fst rule u \<and> snd rule u = SELF_CARE) (ordered_rules self)
     \<Longrightarrow> contains ''back pain'' (lower u)"
  unfolding ordered_rules_def asthma_override_def blood_sugar_override_def
    back_pain_override_def
  by (simp split: if_splits)

lemma self_care_origin:
  assumes "classify_symptom self u = SELF_CARE"
  shows "contains ''back pain'' (lower u) \<or> \<not> list_ex (\<lambda>rule. fst rule u) (ordered_rules self)"
proof -
  have "classify_symptom self u = first_match (ordered_rules self) u"
    unfolding classify_symptom_def ordered_rules_def intensifier_override_def
      asthma_override_def blood_sugar_override_def back_pain_override_def
      chronic_terms_def worsening_terms_def Let_def
    by (simp only: first_match.simps)
  with assms have "first_match (ordered_rules self) u = SELF_CARE" by simp
  from first_match_self_care [OF this] self_care_rule_is_back_pain show ?thesis by blast
qed


lemma sore_throat_tables:
  "check_pattern_match ''sore throat for three days'' (emergency_indicators TriageAgent_init) = False"
  "check_pattern_match ''sore throat for three days'' (urgent_indicators TriageAgent_init) = False"
  "check_pattern_match ''sore throat for three days'' (semi_urgent_indicators TriageAgent_init) = False"
  unfolding TriageAgent_init_def TriageAgent.select_convs
  by (simp_all add: match_evals)

lemma sore_throat_self_care_listed:
  "check_pattern_match ''sore throat for three days'' (self_care_indicators TriageAgent_init)"
proof -
  have "Lit ''sore throat'' \<in> set (self_care_indicators TriageAgent_init)"
    unfolding TriageAgent_init_def TriageAgent.select_convs by simp
  moreover have "re_search (Lit ''sore throat'') (lower ''sore throat for three days'')"
    by (simp add: char_evals)
  ultimately show ?thesis by (rule check_pattern_match_member)
qed

lemma sore_throat_overrides:
  "any_in [''day'', ''days'', ''week'', ''weeks'', ''month'', ''months'']
     (lower ''sore throat for three days'')"
  "\<not> intensifier_override ''sore throat for three days''"
  "\<not> contains ''asthma'' (lower ''sore throat for three days'')"
  "\<not> contains ''blood sugar'' (lower ''sore throat for three days'')"
  "\<not> contains ''diabetes'' (lower ''sore throat for three days'')"
  "\<not> contains ''back pain'' (lower ''sore throat for three days'')"
  by (simp_all add: intensifier_override_def any_in_def char_evals)

lemma sore_throat_routine:
  "classify_symptom TriageAgent_init ''sore throat for three days'' = ROUTINE"
  using sore_throat_overrides sore_throat_tables by (intro duration_routine) simp_all

lemma monday_tables:
  "check_pattern_match ''monday'' (emergency_indicators TriageAgent_init) = False"
  "check_pattern_match ''monday'' (urgent_indicators TriageAgent_init) = False"
  "check_pattern_match ''monday'' (semi_urgent_indicators TriageAgent_init) = False"
  unfolding TriageAgent_init_def TriageAgent.select_convs
  by (simp_all add: match_evals)

lemma monday_overrides:
  "any_in [''day'', ''days'', ''week'', ''weeks'', ''month'', ''months''] (lower ''monday'')"
  "\<not> intensifier_override ''monday''"
  "\<not> contains ''asthma'' (lower ''monday'')"
  "\<not> contains ''blood sugar'' (lower ''monday'')"
  "\<not> contains ''diabetes'' (lower ''monday'')"
  "\<not> contains ''back pain'' (lower ''monday'')"
  by (simp_all add: intensifier_override_def any_in_def char_evals)

lemma monday_routine: "classify_symptom TriageAgent_init ''monday'' = ROUTINE"
  using monday_overrides monday_tables by (intro duration_routine) simp_all

lemma back_pain_self_care: "classify_symptom self ''back pain'' = SELF_CARE"
  by (simp add: classify_symptom_def any_in_def char_evals)

lemma back_pain_rule_applies: "list_ex (\<lambda>rule. fst rule ''back pain'') (ordered_rules self)"
proof -
  have f: "fst back_pain_override ''back pain'' = True"
    by (simp add: back_pain_override_def char_evals)
  show ?thesis unfolding ordered_rules_def list_ex_Cons_iff by (simp only: f simp_thms)
qed

text \<open>
  Claim C10, amended. With the tables of the agent, a symptom that contains one of
  \<^verbatim>\<open>day\<close>, \<^verbatim>\<open>days\<close>, \<^verbatim>\<open>week\<close>, \<^verbatim>\<open>weeks\<close>, \<^verbatim>\<open>month\<close>, \<^verbatim>\<open>months\<close>, letter case
  apart, and that triggers neither the intensifier rule, nor an override, nor a pattern
  of the Emergency, Urgent or SemiUrgent table, is Routine. So are
  \<^verbatim>\<open>sore throat for three days\<close>, which also matches a self-care pattern, and
  \<^verbatim>\<open>monday\<close>. The self-care table is never read: replacing it changes no tier.
  SelfCare is returned only by the back-pain override or when no rule applies.
\<close>

theorem duration_rule_routine:
  "(any_in [''day'', ''days'', ''week'', ''weeks'', ''month'', ''months''] (lower u)
      \<and> \<not> intensifier_override u
      \<and> \<not> contains ''asthma'' (lower u)
      \<and> \<not> contains ''blood sugar'' (lower u) \<and> \<not> contains ''diabetes'' (lower u)
      \<and> \<not> contains ''back pain'' (lower u)
      \<and> \<not> check_pattern_match u (emergency_indicators TriageAgent_init)
      \<and> \<not> check_pattern_match u (urgent_indicators TriageAgent_init)
      \<and> \<not> check_pattern_match u (semi_urgent_indicators TriageAgent_init)
      \<longrightarrow> classify_symptom TriageAgent_init u = ROUTINE)
   \<and> classify_symptom TriageAgent_init ''sore throat for three days'' = ROUTINE
   \<and> check_pattern_match ''sore throat for three days'' (self_care_indicators TriageAgent_init)
   \<and> classify_symptom TriageAgent_init ''monday'' = ROUTINE
   \<and> classify_symptom (self\<lparr>self_care_indicators := ps\<rparr>) u = classify_symptom self u
   \<and> (classify_symptom self u = SELF_CARE \<longrightarrow>
        contains ''back pain'' (lower u)
        \<or> \<not> list_ex (\<lambda>rule. fst rule u) (ordered_rules self))"
  using duration_routine [of u] sore_throat_routine sore_throat_self_care_listed monday_routine
    self_care_list_unused self_care_origin [of self u]
  by blast

theorem duration_rule_routine_witness:
  "any_in [''day'', ''days'', ''week'', ''weeks'', ''month'', ''months''] (lower ''monday'')
   \<and> \<not> intensifier_override ''monday''
   \<and> \<not> contains ''asthma'' (lower ''monday'')
   \<and> \<not> contains ''blood sugar'' (lower ''monday'') \<and> \<not> contains ''diabetes'' (lower ''monday'')
   \<and> \<not> contains ''back pain'' (lower ''monday'')
   \<and> \<not> check_pattern_match ''monday'' (emergency_indicators TriageAgent_init)
   \<and> \<not> check_pattern_match ''monday'' (urgent_indicators TriageAgent_init)
   \<and> \<not> check_pattern_match ''monday'' (semi_urgent_indicators TriageAgent_init)
   \<and> classify_symptom TriageAgent_init ''monday'' = ROUTINE
   \<and> classify_symptom TriageAgent_init ''back pain'' = SELF_CARE
   \<and> (contains ''back pain'' (lower ''back pain'')
        \<or> \<not> list_ex (\<lambda>rule. fst rule ''back pain'') (ordered_rules TriageAgent_init))"
proof -
  note h = monday_overrides monday_tables [simplified]
  from h duration_rule_routine [where u = "''monday''"] have "classify_symptom TriageAgent_init ''monday'' = ROUTINE"
    by blast
  moreover from back_pain_self_care [of TriageAgent_init] duration_rule_routine [where u = "''back pain''" and self = TriageAgent_init]
  have "contains ''back pain'' (lower ''back pain'')
        \<or> \<not> list_ex (\<lambda>rule. fst rule ''back pain'') (ordered_rules TriageAgent_init)"
    by blast
  ultimately show ?thesis using h back_pain_self_care [of TriageAgent_init] by blast
qed

text \<open>
  Claim C10 as stated fails in its last part: \<^verbatim>\<open>back pain\<close> is SelfCare by the back-pain
  override, a rule that applies, and not by the default.
\<close>

theorem self_care_from_back_pain_override:
  "\<not> (\<forall>u. classify_symptom TriageAgent_init u = SELF_CARE \<longrightarrow>
          \<not> list_ex (\<lambda>rule. fst rule u) (ordered_rules TriageAgent_init))"
  using back_pain_self_care [of TriageAgent_init] back_pain_rule_applies [of TriageAgent_init]
  by blast


section \<open>The fallback text of the caller\<close>

lemma chest_pain_triage:
  "\<exists>instr. triage_symptoms TriageAgent_init ''chest pain'' =
     Inr \<lparr>severity = ''emergency'', care_pathway = ''emergency_room'', instructions = instr\<rparr>"
proof -
  have p: "recommend_care_pathway EMERGENCY = Inr EMERGENCY_ROOM"
    by (simp add: recommend_care_pathway_def dict_get_def pathway_map_def)
  from triage_symptoms_fields [OF chest_pain_severity p] show ?thesis by auto
qed

lemma connection_error_text:
  "ai_response ''emergency'' (Post_raises (Requests_ConnectionError m)) =
     ''I'm unable to connect to the medical AI service at the moment. Please ensure Ollama is running with the medllama2 model loaded.''"
  by simp

lemma connection_error_no_directive:
  "\<not> directs_to_emergency_services (ai_response ''emergency'' (Post_raises (Requests_ConnectionError m)))"
  by (simp add: directs_to_emergency_services_def char_evals)

lemma health_check_timeout_text:
  "ai_response ''emergency'' (Health_check_raises (Requests_Timeout m)) =
     ''An unexpected error occurred: Ollama service is not running. Please try again with a simpler description.''"
  by simp

lemma health_check_timeout_no_directive:
  "\<not> directs_to_emergency_services (ai_response ''emergency'' (Health_check_raises (Requests_Timeout m)))"
  by (simp add: directs_to_emergency_services_def char_evals)

lemma post_timeout_directive:
  "directs_to_emergency_services (ai_response ''emergency'' (Post_raises (Requests_Timeout m)))"
  by (simp add: directs_to_emergency_services_def char_evals)

text \<open>
  Claim C8 fails on the code. The report \<^verbatim>\<open>chest pain\<close> has severity \<^verbatim>\<open>emergency\<close>.
  When the request to the service times out, the fallback text names emergency services.
  When the request raises a connection error, or when the health check before it times
  out, the fallback text is a fixed notice that does not.
\<close>

theorem emergency_fallback_depends_on_failure:
  "(\<exists>instr. triage_symptoms TriageAgent_init ''chest pain'' =
      Inr \<lparr>severity = ''emergency'', care_pathway = ''emergency_room'', instructions = instr\<rparr>)
   \<and> directs_to_emergency_services (ai_response ''emergency'' (Post_raises (Requests_Timeout m)))
   \<and> ai_response ''emergency'' (Post_raises (Requests_ConnectionError m)) =
       ''I'm unable to connect to the medical AI service at the moment. Please ensure Ollama is running with the medllama2 model loaded.''
   \<and> \<not> directs_to_emergency_services
         (ai_response ''emergency'' (Post_raises (Requests_ConnectionError m)))
   \<and> ai_response ''emergency'' (Health_check_raises (Requests_Timeout m)) =
       ''An unexpected error occurred: Ollama service is not running. Please try again with a simpler description.''
   \<and> \<not> directs_to_emergency_services
         (ai_response ''emergency'' (Health_check_raises (Requests_Timeout m)))"
  using chest_pain_triage post_timeout_directive connection_error_text
    connection_error_no_directive health_check_timeout_text health_check_timeout_no_directive
  by blast


end
